theory Spec2Isabelle
  imports Main
begin

section \<open>Common types\<close>

text \<open>
  Objects live on the C++ heap and are referred to by address.  Addresses are natural
  numbers; a \<open>shared_ptr\<close> that may be \<open>nullptr\<close> is an \<open>option\<close>.
\<close>

type_synonym task_ptr = nat
type_synonym conn_ptr = nat
type_synonym rule_ptr = nat
type_synonym dev_ptr = nat
type_synonym cudaStream_t = nat

text \<open>
  Every way a member function can fail to return: a thrown \<open>std::runtime_error\<close> with its
  message, a failed \<open>HTGS_ASSERT\<close> with its message, and a read through a raw pointer
  outside the array it addresses (undefined behaviour in C++).
\<close>

datatype error =
    RuntimeError string
  | AssertionFailure string
  | UndefinedBehaviour

section \<open>ICudaTask (src/unnamed/part\_000)\<close>

subsection \<open>Data\<close>

text \<open>
  The private members of \<open>ICudaTask\<close>, in declaration order.  \<open>cudaIds\<close> is an \<open>int *\<close>;
  the list is the array it points to.  \<open>int\<close> members are mathematical integers (the
  code never does arithmetic on them); \<open>size_t\<close> members are naturals.
\<close>

record cuda_task =
  stream :: cudaStream_t
  cudaIds :: "int list"
  numGpus :: nat
  cudaId :: int
  nonPeerDevIds :: "int list"
  autoEnablePeerAccess :: bool

text \<open>
  The constructor assigns \<open>cudaIds\<close> and \<open>numGpus\<close> only.  \<open>nonPeerDevIds\<close> is
  default-constructed (empty vector); \<open>stream\<close>, \<open>cudaId\<close> and \<open>autoEnablePeerAccess\<close>
  have no initialiser and hold whatever the storage held.  That indeterminate content is
  an explicit argument of the model.
\<close>

record indeterminate =
  ind_stream :: cudaStream_t
  ind_cudaId :: int
  ind_autoEnablePeerAccess :: bool

definition ICudaTask :: "indeterminate \<Rightarrow> int list \<Rightarrow> nat \<Rightarrow> bool \<Rightarrow> cuda_task" where
  "ICudaTask u cudaIds_arg numGpus_arg autoEnablePeerAccess_arg =
     \<lparr> stream = ind_stream u,
       cudaIds = cudaIds_arg,
       numGpus = numGpus_arg,
       cudaId = ind_cudaId u,
       nonPeerDevIds = [],
       autoEnablePeerAccess = ind_autoEnablePeerAccess u \<rparr>"

text \<open>
  Modelled from the spec: \<open>MemoryData\<close> is only forward-declared in the source.  The spec
  (section 3) gives it a buffer and the metadata \<open>pipelineId\<close>; \<open>mem_pipelineId\<close> is what
  \<open>getPipelineId()\<close> returns and \<open>mem_get\<close> the device address \<open>get()\<close> returns.
\<close>

record memory_data =
  mem_pipelineId :: nat
  mem_get :: dev_ptr

text \<open>
  The CUDA runtime as the task sees it: the count written by \<open>cudaGetDeviceCount\<close>, the
  stream handle written by \<open>cudaStreamCreate\<close>, and the value written to \<open>canAccess\<close> by
  \<open>cudaDeviceCanAccessPeer(&canAccess, device, peer)\<close>.
\<close>

record cuda_runtime =
  deviceCount :: int
  newStream :: cudaStream_t
  canAccessPeer :: "int \<Rightarrow> int \<Rightarrow> int"

text \<open>The calls a member function makes, in program order.\<close>

datatype event =
    CudaGetDeviceCount
  | CudaSetDevice int
  | CudaStreamCreate
  | CudaDeviceCanAccessPeer int int
  | CudaDeviceEnablePeerAccess int nat
  | CudaMemcpyPeerAsync dev_ptr int dev_ptr int nat cudaStream_t
  | InitializeCudaGPU

subsection \<open>Helpers\<close>

text \<open>\<open>p[i]\<close> on a raw pointer: defined inside the array only.\<close>

definition array_read :: "'a list \<Rightarrow> nat \<Rightarrow> error + 'a" where
  "array_read xs i = (if i < length xs then Inr (xs ! i) else Inl UndefinedBehaviour)"

text \<open>
  \<open>std::find(first, last, v)\<close> as the position of the first element equal to \<open>v\<close>, or
  the length of the range (\<open>last\<close>) when there is none.
\<close>

fun std_find :: "int list \<Rightarrow> int \<Rightarrow> nat" where
  "std_find [] v = 0"
| "std_find (x # xs) v = (if x = v then 0 else Suc (std_find xs v))"

text \<open>Conversions to the 64-bit \<open>size_t\<close>: the value modulo \<open>2 ^ 64\<close>.\<close>

definition to_size_t :: "int \<Rightarrow> nat" where
  "to_size_t i = nat (i mod 2 ^ 64)"

text \<open>\<open>std::to_string\<close> on an \<open>int\<close>: decimal digits, with a leading minus sign.\<close>

function nat_to_string :: "nat \<Rightarrow> string" where
  "nat_to_string n =
     (if n < 10 then [''0123456789'' ! n]
      else nat_to_string (n div 10) @ [''0123456789'' ! (n mod 10)])"
  by pat_completeness auto
termination
  by (relation "measure id") auto

declare nat_to_string.simps [simp del]

definition to_string :: "int \<Rightarrow> string" where
  "to_string i = (if i < 0 then CHR ''-'' # nat_to_string (nat (- i)) else nat_to_string (nat i))"

text \<open>
  Modelled from the spec: the macro \<open>HTGS_ASSERT(condition, message)\<close> is not defined in
  the sources at hand.  The spec (section 7) says that a CUDA id out of range fails fast
  with a descriptive error at \<open>initialize\<close> time: a false condition ends the call with
  the message, a true one lets it continue.
\<close>

definition HTGS_ASSERT :: "bool \<Rightarrow> string \<Rightarrow> error option" where
  "HTGS_ASSERT condition message = (if condition then None else Some (AssertionFailure message))"

subsection \<open>Member functions\<close>

definition getCudaId :: "cuda_task \<Rightarrow> int" where
  "getCudaId t = cudaId t"

text \<open>\<open>requiresCopy(size_t pipelineId)\<close>: is \<open>cudaIds[pipelineId]\<close> found in \<open>nonPeerDevIds\<close>?\<close>

definition requiresCopy :: "cuda_task \<Rightarrow> nat \<Rightarrow> error + bool" where
  "requiresCopy t pipelineId =
     (case array_read (cudaIds t) pipelineId of
        Inl e \<Rightarrow> Inl e
      | Inr v \<Rightarrow> Inr (std_find (nonPeerDevIds t) v \<noteq> length (nonPeerDevIds t)))"

text \<open>The overload on \<open>MemoryData\<close>.\<close>

definition requiresCopy_data :: "cuda_task \<Rightarrow> memory_data \<Rightarrow> error + bool" where
  "requiresCopy_data t data = requiresCopy t (mem_pipelineId data)"

text \<open>\<open>hasPeerToPeerCopy(size_t pipelineId) { return !requiresCopy((size_t)cudaId); }\<close>\<close>

definition hasPeerToPeerCopy :: "cuda_task \<Rightarrow> nat \<Rightarrow> error + bool" where
  "hasPeerToPeerCopy t pipelineId =
     (case requiresCopy t (to_size_t (cudaId t)) of
        Inl e \<Rightarrow> Inl e
      | Inr b \<Rightarrow> Inr (\<not> b))"

text \<open>
  \<open>autoCopy(destination, data, numElems)\<close>.  \<open>sizeofV\<close> is \<open>sizeof(V)\<close> of the template
  parameter; \<open>sizeof(V) * numElems\<close> is computed in \<open>size_t\<close>.  The result is the
  returned flag with the CUDA calls made.
\<close>

definition autoCopy ::
  "cuda_task \<Rightarrow> nat \<Rightarrow> dev_ptr \<Rightarrow> memory_data \<Rightarrow> int \<Rightarrow> error + (bool \<times> event list)" where
  "autoCopy t sizeofV destination data numElems =
     (case requiresCopy_data t data of
        Inl e \<Rightarrow> Inl e
      | Inr True \<Rightarrow>
          (case array_read (cudaIds t) (mem_pipelineId data) of
             Inl e \<Rightarrow> Inl e
           | Inr srcDevice \<Rightarrow>
               Inr (True,
                    [CudaMemcpyPeerAsync destination (cudaId t) (mem_get data) srcDevice
                       ((sizeofV * to_size_t numElems) mod 2 ^ 64) (stream t)]))
      | Inr False \<Rightarrow> Inr (False, []))"

text \<open>
  The loop of \<open>initialize\<close>: \<open>for (size_t i = 0; i < numGpus; i++)\<close>, from index \<open>i\<close> on,
  with the calls made so far.
\<close>

function peerLoop ::
  "cuda_runtime \<Rightarrow> cuda_task \<Rightarrow> nat \<Rightarrow> event list \<Rightarrow> event list \<times> (error + cuda_task)" where
  "peerLoop rt t i tr =
     (if i < numGpus t then
        (case array_read (cudaIds t) i of
           Inl e \<Rightarrow> (tr, Inl e)
         | Inr peerId \<Rightarrow>
             if peerId \<noteq> cudaId t then
               (if canAccessPeer rt (cudaId t) peerId \<noteq> 0
                then peerLoop rt t (Suc i)
                       (tr @ [CudaDeviceCanAccessPeer (cudaId t) peerId,
                              CudaDeviceEnablePeerAccess peerId 0])
                else peerLoop rt (t\<lparr>nonPeerDevIds := nonPeerDevIds t @ [peerId]\<rparr>) (Suc i)
                       (tr @ [CudaDeviceCanAccessPeer (cudaId t) peerId]))
             else peerLoop rt t (Suc i) tr)
      else (tr, Inr t))"
  by pat_completeness auto
termination
  by (relation "measure (\<lambda>(rt, t, i, tr). numGpus t - i)") auto

declare peerLoop.simps [simp del]

text \<open>The calls one iteration of the loop makes for the array entry \<open>p\<close> on device \<open>c\<close>.\<close>

definition probe_calls :: "cuda_runtime \<Rightarrow> int \<Rightarrow> int \<Rightarrow> event list" where
  "probe_calls rt c p =
     (if p \<noteq> c then
        (if canAccessPeer rt c p \<noteq> 0
         then [CudaDeviceCanAccessPeer c p, CudaDeviceEnablePeerAccess p 0]
         else [CudaDeviceCanAccessPeer c p])
      else [])"

text \<open>
  \<open>initialize()\<close>.  \<open>pipelineId\<close> is what \<open>this->getPipelineId()\<close> returns; it belongs to
  the base class \<open>ITask\<close>, which is set by the runtime.  The virtual hook
  \<open>initializeCudaGPU()\<close> has the empty default body and no access to the private members;
  its call is recorded.
\<close>

definition initialize ::
  "cuda_runtime \<Rightarrow> nat \<Rightarrow> cuda_task \<Rightarrow> event list \<times> (error + cuda_task)" where
  "initialize rt pipelineId t =
     (case array_read (cudaIds t) pipelineId of
        Inl e \<Rightarrow> ([], Inl e)
      | Inr selected \<Rightarrow>
          (let t1 = t\<lparr>cudaId := selected\<rparr>;
               numGpus_local = deviceCount rt;
               tr1 = [CudaGetDeviceCount]
           in case HTGS_ASSERT (cudaId t1 < numGpus_local)
                     (''Error: Cuda ID: '' @ to_string (cudaId t1)
                        @ '' is larger than the number of GPUs: '' @ to_string numGpus_local) of
                Some e \<Rightarrow> (tr1, Inl e)
              | None \<Rightarrow>
                  (let tr2 = tr1 @ [CudaSetDevice (cudaId t1), CudaStreamCreate];
                       t2 = t1\<lparr>stream := newStream rt\<rparr>;
                       (tr3, r) = (if autoEnablePeerAccess t2 then peerLoop rt t2 0 tr2
                                   else (tr2, Inr t2))
                   in case r of
                        Inl e \<Rightarrow> (tr3, Inl e)
                      | Inr t3 \<Rightarrow> (tr3 @ [InitializeCudaGPU], Inr t3))))"

section \<open>Edge descriptors (MemoryEdge.hpp, RuleEdge.hpp)\<close>

subsection \<open>The object graph\<close>

datatype MMType = Static | Dynamic | UserManaged

text \<open>
  Modelled from the spec: the classes \<open>Connector\<close>, \<open>TaskManager\<close> (\<open>TaskScheduler\<close> in
  RuleEdge.hpp), \<open>RuleScheduler\<close>, \<open>Bookkeeper\<close>, \<open>AnyITask\<close>, \<open>MemoryManager\<close> and
  \<open>AnyTaskGraphConf\<close> (\<open>AnyTaskGraph\<close> in RuleEdge.hpp) are not among the sources at hand;
  the edge descriptors only call them.  Following the spec: a connector carries a
  producer count (section 3); a task manager has an input and an output connector
  (section 4.2); a rule scheduler holds one rule and one output connector and a
  bookkeeper an ordered list of rule schedulers (sections 3 and 4.3); a graph maps each
  task pointer to its task manager, created lazily when an edge is applied (sections 3
  and 9); a task has a name and its named memory edges (sections 4.5 and 6); a memory
  manager has a type (section 4.4).
\<close>

record connector =
  producerCount :: nat

record task_manager =
  inputConnector :: "conn_ptr option"
  outputConnector :: "conn_ptr option"

record rule_scheduler =
  rs_rule :: rule_ptr
  rs_outputConnector :: "conn_ptr option"

record attached_edge =
  ae_getMemoryConnector :: conn_ptr
  ae_releaseMemoryConnector :: conn_ptr
  ae_type :: MMType

text \<open>
  Modelled from the spec: the store these objects live in (the classes are not among the
  sources at hand): connector objects by address with the next free address, the graph's task
  managers by task pointer, and per task object its name, memory edges, rule schedulers
  (for a bookkeeper) and type (for a memory manager).  \<open>taskManagers\<close> is the map of the
  graph an edge is applied to (the \<open>graph\<close> argument of \<open>applyEdge\<close>); the other fields
  belong to the task and connector objects and are the same under every graph.  Applying
  an edge to another graph is applying it to the store with that graph's map in
  \<open>taskManagers\<close>.
\<close>

record heap =
  connectors :: "conn_ptr \<Rightarrow> connector"
  nextConnector :: conn_ptr
  taskManagers :: "task_ptr \<rightharpoonup> task_manager"
  taskName :: "task_ptr \<Rightarrow> string"
  memoryEdges :: "task_ptr \<Rightarrow> (string \<rightharpoonup> attached_edge)"
  ruleSchedulers :: "task_ptr \<Rightarrow> rule_scheduler list"
  mmType :: "task_ptr \<Rightarrow> MMType"

text \<open>
  Modelled from the spec: \<open>Connector\<close> is missing.  \<open>new Connector<T>()\<close> gives a fresh
  connector without producers (section 5: the producer count is built up while the graph
  is built), at the next free address.
\<close>

definition newConnector :: "heap \<Rightarrow> conn_ptr \<times> heap" where
  "newConnector h =
     (nextConnector h,
      h\<lparr>connectors := (connectors h)(nextConnector h := \<lparr>producerCount = 0\<rparr>),
        nextConnector := Suc (nextConnector h)\<rparr>)"

text \<open>
  Modelled from the spec: \<open>Connector::incrementInputTaskCount\<close> and
  \<open>Connector::getProducerCount\<close> (section 4.1) are missing; the first adds one producer,
  the second reads the count.
\<close>

definition incrementInputTaskCount :: "heap \<Rightarrow> conn_ptr \<Rightarrow> heap" where
  "incrementInputTaskCount h c =
     h\<lparr>connectors := (connectors h)(c := (connectors h c)\<lparr>producerCount := Suc (producerCount (connectors h c))\<rparr>)\<rparr>"

definition getProducerCount :: "heap \<Rightarrow> conn_ptr \<Rightarrow> nat" where
  "getProducerCount h c = producerCount (connectors h c)"

text \<open>
  Modelled from the spec: \<open>AnyTaskGraphConf::getTaskManager\<close> (\<open>getTaskScheduler\<close> in
  RuleEdge.hpp) is missing.  \<open>graph->getTaskManager(task)\<close> is the task's manager in the
  graph's map, created with null connectors when the graph has none yet (sections 3
  and 9).  A task manager is identified by the task pointer it wraps.
\<close>

definition getTaskManager :: "heap \<Rightarrow> task_ptr \<Rightarrow> task_ptr \<times> heap" where
  "getTaskManager h task =
     (case taskManagers h task of
        Some tm \<Rightarrow> (task, h)
      | None \<Rightarrow>
          (task, h\<lparr>taskManagers := (taskManagers h)(task \<mapsto>
                      \<lparr>inputConnector = None, outputConnector = None\<rparr>)\<rparr>))"

definition getTaskScheduler :: "heap \<Rightarrow> task_ptr \<Rightarrow> task_ptr \<times> heap" where
  "getTaskScheduler h task = getTaskManager h task"

text \<open>
  Modelled from the spec: \<open>AnyTaskGraphConf::hasTask\<close> is missing; a task is in the graph
  when the graph's map has a manager for it (section 4.5, "present in the graph's task
  set").
\<close>

definition hasTask :: "heap \<Rightarrow> task_ptr \<Rightarrow> bool" where
  "hasTask h task = (taskManagers h task \<noteq> None)"

text \<open>
  Modelled from the spec: the accessors of \<open>TaskManager\<close> (missing) for its two
  connectors (section 4.2).
\<close>

definition getInputConnector :: "heap \<Rightarrow> task_ptr \<Rightarrow> conn_ptr option" where
  "getInputConnector h tm = (case taskManagers h tm of None \<Rightarrow> None | Some m \<Rightarrow> inputConnector m)"

definition getOutputConnector :: "heap \<Rightarrow> task_ptr \<Rightarrow> conn_ptr option" where
  "getOutputConnector h tm = (case taskManagers h tm of None \<Rightarrow> None | Some m \<Rightarrow> outputConnector m)"

definition setInputConnector :: "heap \<Rightarrow> task_ptr \<Rightarrow> conn_ptr option \<Rightarrow> heap" where
  "setInputConnector h tm c =
     h\<lparr>taskManagers := (taskManagers h)(tm := map_option (\<lambda>m. m\<lparr>inputConnector := c\<rparr>) (taskManagers h tm))\<rparr>"

definition setOutputConnector :: "heap \<Rightarrow> task_ptr \<Rightarrow> conn_ptr option \<Rightarrow> heap" where
  "setOutputConnector h tm c =
     h\<lparr>taskManagers := (taskManagers h)(tm := map_option (\<lambda>m. m\<lparr>outputConnector := c\<rparr>) (taskManagers h tm))\<rparr>"

text \<open>
  Modelled from the spec: \<open>AnyITask::getName\<close>, \<open>MemoryManager::getType\<close>,
  \<open>AnyITask::hasMemoryEdge\<close> and \<open>AnyITask::attachMemoryEdge\<close> are missing.  A task has
  the named memory edges that were attached to it (sections 4.5 and 6), each with its two
  connectors and the manager's type.
\<close>

definition getName :: "heap \<Rightarrow> task_ptr \<Rightarrow> string" where
  "getName h task = taskName h task"

definition getType :: "heap \<Rightarrow> task_ptr \<Rightarrow> MMType" where
  "getType h memoryManager = mmType h memoryManager"

definition hasMemoryEdge :: "heap \<Rightarrow> task_ptr \<Rightarrow> string \<Rightarrow> bool" where
  "hasMemoryEdge h task name = (memoryEdges h task name \<noteq> None)"

definition attachMemoryEdge ::
  "heap \<Rightarrow> task_ptr \<Rightarrow> string \<Rightarrow> conn_ptr \<Rightarrow> conn_ptr \<Rightarrow> MMType \<Rightarrow> heap" where
  "attachMemoryEdge h task name getMemoryConnector releaseMemoryConnector type =
     h\<lparr>memoryEdges := (memoryEdges h)(task := (memoryEdges h task)(name \<mapsto>
          \<lparr>ae_getMemoryConnector = getMemoryConnector,
           ae_releaseMemoryConnector = releaseMemoryConnector,
           ae_type = type\<rparr>))\<rparr>"

text \<open>
  Modelled from the spec: \<open>Bookkeeper::addRuleScheduler\<close> is missing; the bookkeeper's
  state is an ordered list of rule schedulers (section 3), which it extends at the end.
\<close>

definition addRuleScheduler :: "heap \<Rightarrow> task_ptr \<Rightarrow> rule_scheduler \<Rightarrow> heap" where
  "addRuleScheduler h bookkeeper rs =
     h\<lparr>ruleSchedulers := (ruleSchedulers h)(bookkeeper := ruleSchedulers h bookkeeper @ [rs])\<rparr>"

subsection \<open>MemoryEdge\<close>

record MemoryEdge =
  memoryEdgeName :: string
  getMemoryTask :: task_ptr
  memoryManager :: task_ptr

text \<open>The three messages \<open>MemoryEdge::applyEdge\<close> throws with.\<close>

definition msg_already_has_edge :: "heap \<Rightarrow> MemoryEdge \<Rightarrow> string" where
  "msg_already_has_edge h e =
     ''Error getMemoryTask: '' @ getName h (getMemoryTask e)
       @ '' already has the memory edge: '' @ memoryEdgeName e"

definition msg_not_in_graph :: "heap \<Rightarrow> MemoryEdge \<Rightarrow> string" where
  "msg_not_in_graph h e =
     ''Error getMemoryTask: '' @ getName h (getMemoryTask e)
       @ '' must be added to the graph you are connecting the memory edge too.''"

definition msg_already_connected :: "heap \<Rightarrow> MemoryEdge \<Rightarrow> string" where
  "msg_already_connected h e =
     ''Error memory manager: '' @ getName h (getMemoryTask e)
       @ '' is already connected to the graph! Are you trying to reuse the same memory manager instance?''"

text \<open>\<open>MemoryEdge::applyEdge(graph)\<close>, without the \<open>WS_PROFILE\<close> block.\<close>

definition MemoryEdge_applyEdge :: "MemoryEdge \<Rightarrow> heap \<Rightarrow> error + heap" where
  "MemoryEdge_applyEdge e h =
     (if hasMemoryEdge h (getMemoryTask e) (memoryEdgeName e)
      then Inl (RuntimeError (msg_already_has_edge h e))
      else if \<not> hasTask h (getMemoryTask e)
      then Inl (RuntimeError (msg_not_in_graph h e))
      else
        (let (memTaskManager, h1) = getTaskManager h (memoryManager e);
             (getMemoryConnector, h2) = newConnector h1;
             (releaseMemoryConnector, h3) = newConnector h2
         in if getInputConnector h3 memTaskManager \<noteq> None
            then Inl (RuntimeError (msg_already_connected h3 e))
            else if getOutputConnector h3 memTaskManager \<noteq> None
            then Inl (RuntimeError (msg_already_connected h3 e))
            else
              (let h4 = setInputConnector h3 memTaskManager (Some releaseMemoryConnector);
                   h5 = setOutputConnector h4 memTaskManager (Some getMemoryConnector);
                   h6 = incrementInputTaskCount h5 getMemoryConnector;
                   h7 = incrementInputTaskCount h6 releaseMemoryConnector
               in Inr (attachMemoryEdge h7 (getMemoryTask e) (memoryEdgeName e)
                         getMemoryConnector releaseMemoryConnector
                         (getType h7 (memoryManager e))))))"

text \<open>
  \<open>MemoryEdge::copy(graph)\<close>.  \<open>graph->getCopy\<close>, the graph's lookup from an original
  task to its clone (spec section 4.6), is missing from the sources and is the
  parameter \<open>getCopy\<close>.
\<close>

definition MemoryEdge_copy :: "(task_ptr \<Rightarrow> task_ptr) \<Rightarrow> MemoryEdge \<Rightarrow> MemoryEdge" where
  "MemoryEdge_copy getCopy e =
     \<lparr> memoryEdgeName = memoryEdgeName e,
       getMemoryTask = getCopy (getMemoryTask e),
       memoryManager = getCopy (memoryManager e) \<rparr>"

subsection \<open>RuleEdge\<close>

record RuleEdge =
  bookkeeper :: task_ptr
  rule :: rule_ptr
  consumer :: task_ptr

text \<open>\<open>RuleEdge::applyEdge(graph)\<close>; it has no failing branch.\<close>

definition RuleEdge_applyEdge :: "RuleEdge \<Rightarrow> heap \<Rightarrow> heap" where
  "RuleEdge_applyEdge e h =
     (let (bookkeeperTaskScheduler, h1) = getTaskScheduler h (bookkeeper e);
          (consumerTaskScheduler, h2) = getTaskScheduler h1 (consumer e);
          (connector, h3) =
             (case getInputConnector h2 consumerTaskScheduler of
                None \<Rightarrow> newConnector h2
              | Some c \<Rightarrow> (c, h2));
          ruleScheduler = \<lparr>rs_rule = rule e, rs_outputConnector = Some connector\<rparr>;
          h4 = incrementInputTaskCount h3 connector;
          h5 = setInputConnector h4 consumerTaskScheduler (Some connector)
      in addRuleScheduler h5 (bookkeeper e) ruleScheduler)"

definition RuleEdge_copy :: "(task_ptr \<Rightarrow> task_ptr) \<Rightarrow> RuleEdge \<Rightarrow> RuleEdge" where
  "RuleEdge_copy getCopy e =
     \<lparr> bookkeeper = getCopy (bookkeeper e),
       rule = rule e,
       consumer = getCopy (consumer e) \<rparr>"

text \<open>Rule edges applied one after the other, as the graph does with its edge list.\<close>

fun applyRuleEdges :: "RuleEdge list \<Rightarrow> heap \<Rightarrow> heap" where
  "applyRuleEdges [] h = h"
| "applyRuleEdges (e # es) h = applyRuleEdges es (RuleEdge_applyEdge e h)"

subsection \<open>EdgeDescriptor\<close>

text \<open>The two subclasses at hand, with the virtual \<open>applyEdge\<close> and \<open>copy\<close>.\<close>

datatype EdgeDescriptor = Memory MemoryEdge | Rule RuleEdge

fun applyEdge :: "EdgeDescriptor \<Rightarrow> heap \<Rightarrow> error + heap" where
  "applyEdge (Memory e) h = MemoryEdge_applyEdge e h"
| "applyEdge (Rule e) h = Inr (RuleEdge_applyEdge e h)"

fun copy :: "(task_ptr \<Rightarrow> task_ptr) \<Rightarrow> EdgeDescriptor \<Rightarrow> EdgeDescriptor" where
  "copy getCopy (Memory e) = Memory (MemoryEdge_copy getCopy e)"
| "copy getCopy (Rule e) = Rule (RuleEdge_copy getCopy e)"

section \<open>Properties of ICudaTask\<close>

subsection \<open>Lookup in \<open>nonPeerDevIds\<close>\<close>

lemma std_find_end_iff: "std_find xs v \<noteq> length xs \<longleftrightarrow> v \<in> set xs"
  by (induction xs) auto

lemma requiresCopy_in_range:
  "p < length (cudaIds t) \<Longrightarrow> requiresCopy t p = Inr (cudaIds t ! p \<in> set (nonPeerDevIds t))"
  by (simp add: requiresCopy_def array_read_def std_find_end_iff)

lemma requiresCopy_out_of_range:
  "\<not> p < length (cudaIds t) \<Longrightarrow> requiresCopy t p = Inl UndefinedBehaviour"
  by (simp add: requiresCopy_def array_read_def)

subsection \<open>The constructor\<close>

text \<open>
  C1.  The claim: the constructor stores its \<open>autoEnablePeerAccess\<close> argument in the
  member, so that the flag \<open>initialize\<close> tests is the value passed.  The code does not:
  the constructed object is the same whatever flag is passed, the member keeps the
  indeterminate content of its storage, and a task constructed with \<open>false\<close> over storage
  holding \<open>true\<close> probes and enables peer access in \<open>initialize\<close>.
\<close>

theorem ICudaTask_drops_autoEnablePeerAccess:
  "ICudaTask u ids n True = ICudaTask u ids n False
   \<and> autoEnablePeerAccess
        (ICudaTask \<lparr>ind_stream = 0, ind_cudaId = 0, ind_autoEnablePeerAccess = True\<rparr> [0, 1] 2 False)
      = True
   \<and> fst (initialize \<lparr>deviceCount = 2, newStream = 7, canAccessPeer = (\<lambda>d p. 1)\<rparr> 0
        (ICudaTask \<lparr>ind_stream = 0, ind_cudaId = 0, ind_autoEnablePeerAccess = True\<rparr> [0, 1] 2 False))
      = [CudaGetDeviceCount, CudaSetDevice 0, CudaStreamCreate,
         CudaDeviceCanAccessPeer 0 1, CudaDeviceEnablePeerAccess 1 0, InitializeCudaGPU]"
  by (simp add: ICudaTask_def initialize_def array_read_def HTGS_ASSERT_def peerLoop.simps)

subsection \<open>autoCopy\<close>

text \<open>
  C2.  For a \<open>MemoryData\<close> whose pipeline id indexes into \<open>cudaIds\<close>, \<open>autoCopy\<close> returns;
  it returns true exactly when the source GPU \<open>cudaIds[data.pipelineId]\<close> is in
  \<open>nonPeerDevIds\<close>; and it issues \<open>cudaMemcpyPeerAsync\<close> (from the source GPU to this
  task's GPU, on this task's stream) when it returns true and no call at all when it
  returns false.
\<close>

theorem autoCopy_iff_nonPeer:
  assumes "mem_pipelineId data < length (cudaIds t)"
  shows "\<exists>r calls. autoCopy t sizeofV destination data numElems = Inr (r, calls)
           \<and> (r \<longleftrightarrow> cudaIds t ! mem_pipelineId data \<in> set (nonPeerDevIds t))
           \<and> calls = (if r then [CudaMemcpyPeerAsync destination (cudaId t) (mem_get data)
                                   (cudaIds t ! mem_pipelineId data)
                                   ((sizeofV * to_size_t numElems) mod 2 ^ 64) (stream t)]
                      else [])"
  using assms
  by (simp add: autoCopy_def requiresCopy_data_def requiresCopy_in_range array_read_def)

theorem autoCopy_iff_nonPeer_witness:
  "mem_pipelineId \<lparr>mem_pipelineId = 1, mem_get = 4096\<rparr>
     < length (cudaIds \<lparr>stream = 7, cudaIds = [0, 1, 2], numGpus = 3, cudaId = 0,
                        nonPeerDevIds = [1], autoEnablePeerAccess = True\<rparr>)
   \<and> autoCopy \<lparr>stream = 7, cudaIds = [0, 1, 2], numGpus = 3, cudaId = 0,
                nonPeerDevIds = [1], autoEnablePeerAccess = True\<rparr> 8 512
        \<lparr>mem_pipelineId = 1, mem_get = 4096\<rparr> 10
      = Inr (True, [CudaMemcpyPeerAsync 512 0 4096 1 80 7])"
  using autoCopy_iff_nonPeer [of "\<lparr>mem_pipelineId = 1, mem_get = 4096\<rparr>"
      "\<lparr>stream = 7, cudaIds = [0, 1, 2], numGpus = 3, cudaId = 0,
        nonPeerDevIds = [1], autoEnablePeerAccess = True\<rparr>" 8 512 10]
  by (auto simp: to_size_t_def)

subsection \<open>hasPeerToPeerCopy\<close>

text \<open>
  C9.  \<open>hasPeerToPeerCopy\<close> ignores its argument: any two pipeline ids give the same
  result, which is the negation of \<open>requiresCopy\<close> at the task's own \<open>cudaId\<close> converted
  to \<open>size_t\<close> (and undefined where that read is).
\<close>

theorem hasPeerToPeerCopy_ignores_argument:
  "hasPeerToPeerCopy t p = hasPeerToPeerCopy t q
   \<and> hasPeerToPeerCopy t p = map_sum id Not (requiresCopy t (to_size_t (cudaId t)))"
  by (simp add: hasPeerToPeerCopy_def split: sum.splits)

text \<open>
  An instance where the answer differs from the one for the requested pipeline:
  pipeline 0 runs on GPU 1, which needs no copy, yet \<open>hasPeerToPeerCopy 0\<close> is false.
\<close>

lemma hasPeerToPeerCopy_not_requested_pipeline:
  "hasPeerToPeerCopy \<lparr>stream = 7, cudaIds = [1, 0], numGpus = 2, cudaId = 1,
                       nonPeerDevIds = [0], autoEnablePeerAccess = True\<rparr> 0 = Inr False
   \<and> requiresCopy \<lparr>stream = 7, cudaIds = [1, 0], numGpus = 2, cudaId = 1,
                    nonPeerDevIds = [0], autoEnablePeerAccess = True\<rparr> 0 = Inr False"
  by (simp add: hasPeerToPeerCopy_def requiresCopy_def array_read_def to_size_t_def)

subsection \<open>initialize\<close>

lemma peerLoop_no_assertion:
  "snd (peerLoop rt t i tr) \<noteq> Inl (AssertionFailure m)"
proof (induction rt t i tr rule: peerLoop.induct)
  case (1 rt t i tr)
  then show ?case
    by (subst peerLoop.simps) (auto simp: array_read_def)
qed

text \<open>Inside the array the loop returns, with the calls and the list it has built.\<close>

lemma peerLoop_in_range:
  "i \<le> numGpus t \<Longrightarrow> numGpus t \<le> length (cudaIds t) \<Longrightarrow>
   peerLoop rt t i tr =
     (tr @ concat (map (probe_calls rt (cudaId t)) (drop i (take (numGpus t) (cudaIds t)))),
      Inr (t\<lparr>nonPeerDevIds := nonPeerDevIds t
              @ filter (\<lambda>p. p \<noteq> cudaId t \<and> canAccessPeer rt (cudaId t) p = 0)
                  (drop i (take (numGpus t) (cudaIds t)))\<rparr>))"
proof (induction rt t i tr rule: peerLoop.induct)
  case (1 rt t i tr)
  show ?case
  proof (cases "i < numGpus t")
    case False
    with "1.prems" show ?thesis
      by (subst peerLoop.simps) simp
  next
    case True
    with "1.prems" have len: "i < length (take (numGpus t) (cudaIds t))" by simp
    have rd: "array_read (cudaIds t) i = Inr (cudaIds t ! i)"
      using True "1.prems" by (simp add: array_read_def)
    have dr: "drop i (take (numGpus t) (cudaIds t))
                = cudaIds t ! i # drop (Suc i) (take (numGpus t) (cudaIds t))"
      using Cons_nth_drop_Suc [OF len] True by simp
    have pc: "probe_calls rt (cudaId t) (cudaIds t ! i) =
               (if cudaIds t ! i \<noteq> cudaId t then
                  (if canAccessPeer rt (cudaId t) (cudaIds t ! i) \<noteq> 0
                   then [CudaDeviceCanAccessPeer (cudaId t) (cudaIds t ! i),
                         CudaDeviceEnablePeerAccess (cudaIds t ! i) 0]
                   else [CudaDeviceCanAccessPeer (cudaId t) (cudaIds t ! i)])
                else [])"
      by (simp add: probe_calls_def)
    show ?thesis
      using True "1.prems" "1.IH" rd
      by (subst peerLoop.simps) (simp add: dr pc)
  qed
qed

text \<open>
  C4.  With \<open>cudaIds[pipelineId]\<close> selected: if it is not smaller than the device count,
  \<open>initialize\<close> ends with the assertion's message after \<open>cudaGetDeviceCount\<close> alone (no
  stream, no probe); if it is smaller, \<open>initialize\<close> never ends with an assertion failure.
\<close>

theorem initialize_assert_range:
  assumes "pipelineId < length (cudaIds t)"
  shows "(\<not> cudaIds t ! pipelineId < deviceCount rt \<longrightarrow>
            initialize rt pipelineId t =
              ([CudaGetDeviceCount],
               Inl (AssertionFailure
                     (''Error: Cuda ID: '' @ to_string (cudaIds t ! pipelineId)
                        @ '' is larger than the number of GPUs: '' @ to_string (deviceCount rt)))))
       \<and> (cudaIds t ! pipelineId < deviceCount rt \<longrightarrow>
            (\<forall>message. snd (initialize rt pipelineId t) \<noteq> Inl (AssertionFailure message)))"
  using assms peerLoop_no_assertion
  by (auto simp: initialize_def array_read_def HTGS_ASSERT_def Let_def split: prod.splits sum.splits)
   (metis snd_conv)+

theorem initialize_assert_range_witness:
  "(0::nat) < length (cudaIds \<lparr>stream = 0, cudaIds = [5, 1], numGpus = 2, cudaId = 0,
                               nonPeerDevIds = [], autoEnablePeerAccess = True\<rparr>)
   \<and> initialize \<lparr>deviceCount = 2, newStream = 7, canAccessPeer = (\<lambda>d p. 0)\<rparr> 0
        \<lparr>stream = 0, cudaIds = [5, 1], numGpus = 2, cudaId = 0,
         nonPeerDevIds = [], autoEnablePeerAccess = True\<rparr>
      = ([CudaGetDeviceCount],
         Inl (AssertionFailure ''Error: Cuda ID: 5 is larger than the number of GPUs: 2''))
   \<and> snd (initialize \<lparr>deviceCount = 2, newStream = 7, canAccessPeer = (\<lambda>d p. 0)\<rparr> 1
        \<lparr>stream = 0, cudaIds = [5, 1], numGpus = 2, cudaId = 0,
         nonPeerDevIds = [], autoEnablePeerAccess = True\<rparr>)
      \<noteq> Inl (AssertionFailure ''Error: Cuda ID: 1 is larger than the number of GPUs: 2'')"
  using initialize_assert_range [of 0 "\<lparr>stream = 0, cudaIds = [5, 1], numGpus = 2, cudaId = 0,
         nonPeerDevIds = [], autoEnablePeerAccess = True\<rparr>"
         "\<lparr>deviceCount = 2, newStream = 7, canAccessPeer = (\<lambda>d p. 0)\<rparr>"]
        initialize_assert_range [of 1 "\<lparr>stream = 0, cudaIds = [5, 1], numGpus = 2, cudaId = 0,
         nonPeerDevIds = [], autoEnablePeerAccess = True\<rparr>"
         "\<lparr>deviceCount = 2, newStream = 7, canAccessPeer = (\<lambda>d p. 0)\<rparr>"]
  by (simp add: to_string_def nat_to_string.simps)

text \<open>
  C3, as stated, fails: with \<open>autoEnablePeerAccess\<close> false, \<open>initialize\<close> selects GPU 0
  and creates the stream but makes no probe, and \<open>nonPeerDevIds\<close> stays empty although
  GPU 1 is listed in \<open>cudaIds\<close> and GPU 0 is denied peer access to it.
\<close>

theorem initialize_unprobed_counterexample:
  "initialize \<lparr>deviceCount = 2, newStream = 7, canAccessPeer = (\<lambda>d p. 0)\<rparr> 0
      \<lparr>stream = 0, cudaIds = [0, 1], numGpus = 2, cudaId = 0,
       nonPeerDevIds = [], autoEnablePeerAccess = False\<rparr>
    = ([CudaGetDeviceCount, CudaSetDevice 0, CudaStreamCreate, InitializeCudaGPU],
       Inr \<lparr>stream = 7, cudaIds = [0, 1], numGpus = 2, cudaId = 0,
            nonPeerDevIds = [], autoEnablePeerAccess = False\<rparr>)
   \<and> canAccessPeer \<lparr>deviceCount = 2, newStream = 7, canAccessPeer = (\<lambda>d p. 0)\<rparr> 0 1 = 0"
  by (simp add: initialize_def array_read_def HTGS_ASSERT_def)

text \<open>
  C3, amended.  For a freshly constructed task (\<open>nonPeerDevIds\<close> empty, \<open>numGpus\<close> the
  length of \<open>cudaIds\<close>) whose selected id passes the range check, \<open>initialize\<close> returns
  with \<open>cudaId = cudaIds[pipelineId]\<close> and a created stream.  If \<open>autoEnablePeerAccess\<close>
  is set it has probed every other GPU listed in \<open>cudaIds\<close>, and \<open>nonPeerDevIds\<close> is
  the list of those other GPUs for which the probe answered 0, in array order.  If the
  flag is clear it has probed nothing and \<open>nonPeerDevIds\<close> is still empty.
\<close>

theorem initialize_probes_when_enabled:
  assumes "pipelineId < length (cudaIds t)"
      and "numGpus t = length (cudaIds t)"
      and "cudaIds t ! pipelineId < deviceCount rt"
      and "nonPeerDevIds t = []"
  shows "\<exists>tr t'. initialize rt pipelineId t = (tr, Inr t')
           \<and> cudaId t' = cudaIds t ! pipelineId
           \<and> stream t' = newStream rt
           \<and> CudaStreamCreate \<in> set tr
           \<and> (autoEnablePeerAccess t \<longrightarrow>
                (\<forall>p \<in> set (cudaIds t). p \<noteq> cudaId t' \<longrightarrow>
                    CudaDeviceCanAccessPeer (cudaId t') p \<in> set tr)
                \<and> nonPeerDevIds t' =
                    filter (\<lambda>p. p \<noteq> cudaId t' \<and> canAccessPeer rt (cudaId t') p = 0) (cudaIds t))
           \<and> (\<not> autoEnablePeerAccess t \<longrightarrow>
                (\<forall>d p. CudaDeviceCanAccessPeer d p \<notin> set tr)
                \<and> nonPeerDevIds t' = [])"
proof (cases "autoEnablePeerAccess t")
  case False
  with assms show ?thesis
    by (simp add: initialize_def array_read_def HTGS_ASSERT_def)
next
  case True
  let ?c = "cudaIds t ! pipelineId"
  let ?t2 = "t\<lparr>cudaId := ?c, stream := newStream rt\<rparr>"
  let ?tr2 = "[CudaGetDeviceCount, CudaSetDevice ?c, CudaStreamCreate]"
  have loop: "peerLoop rt ?t2 0 ?tr2 =
     (?tr2 @ concat (map (probe_calls rt ?c) (cudaIds t)),
      Inr (?t2\<lparr>nonPeerDevIds :=
             filter (\<lambda>p. p \<noteq> ?c \<and> canAccessPeer rt ?c p = 0) (cudaIds t)\<rparr>))"
    using peerLoop_in_range [of 0 ?t2 rt ?tr2] assms by simp
  have probes: "\<forall>p \<in> set (cudaIds t). p \<noteq> ?c \<longrightarrow>
       CudaDeviceCanAccessPeer ?c p \<in> set (concat (map (probe_calls rt ?c) (cudaIds t)))"
    by (auto simp: probe_calls_def)
  show ?thesis
    using True assms probes
    by (simp add: initialize_def array_read_def HTGS_ASSERT_def loop)
qed

theorem initialize_probes_when_enabled_witness:
  "initialize \<lparr>deviceCount = 4, newStream = 7, canAccessPeer = (\<lambda>d p. if p = 2 then 0 else 1)\<rparr> 0
      \<lparr>stream = 0, cudaIds = [0, 1, 2], numGpus = 3, cudaId = 9,
       nonPeerDevIds = [], autoEnablePeerAccess = True\<rparr>
    = ([CudaGetDeviceCount, CudaSetDevice 0, CudaStreamCreate,
        CudaDeviceCanAccessPeer 0 1, CudaDeviceEnablePeerAccess 1 0,
        CudaDeviceCanAccessPeer 0 2, InitializeCudaGPU],
       Inr \<lparr>stream = 7, cudaIds = [0, 1, 2], numGpus = 3, cudaId = 0,
            nonPeerDevIds = [2], autoEnablePeerAccess = True\<rparr>)"
  using initialize_probes_when_enabled [of 0
      "\<lparr>stream = 0, cudaIds = [0, 1, 2], numGpus = 3, cudaId = 9,
        nonPeerDevIds = [], autoEnablePeerAccess = True\<rparr>"
      "\<lparr>deviceCount = 4, newStream = 7, canAccessPeer = (\<lambda>d p. if p = 2 then 0 else 1)\<rparr>"]
  by (simp add: initialize_def array_read_def HTGS_ASSERT_def peerLoop.simps)

section \<open>Properties of the edge descriptors\<close>

text \<open>The operations on the store, and the three messages, for unfolding.\<close>

lemmas heap_ops =
  newConnector_def incrementInputTaskCount_def getProducerCount_def getTaskManager_def
  getTaskScheduler_def hasTask_def getInputConnector_def getOutputConnector_def
  setInputConnector_def setOutputConnector_def getName_def getType_def hasMemoryEdge_def
  attachMemoryEdge_def addRuleScheduler_def

lemmas edge_msgs = msg_already_has_edge_def msg_not_in_graph_def msg_already_connected_def

subsection \<open>MemoryEdge::applyEdge\<close>

text \<open>\<open>applyEdge\<close> returns exactly when none of its four checks fires.\<close>

lemma MemoryEdge_applyEdge_Inr_iff:
  "(\<exists>h'. MemoryEdge_applyEdge e h = Inr h') \<longleftrightarrow>
     \<not> hasMemoryEdge h (getMemoryTask e) (memoryEdgeName e)
     \<and> hasTask h (getMemoryTask e)
     \<and> getInputConnector h (memoryManager e) = None
     \<and> getOutputConnector h (memoryManager e) = None"
  by (auto simp: MemoryEdge_applyEdge_def heap_ops Let_def
           split: prod.splits option.splits)

text \<open>What a returning \<open>applyEdge\<close> has done to the store.\<close>

lemma MemoryEdge_applyEdge_result:
  assumes "MemoryEdge_applyEdge e h = Inr h'"
  shows "getInputConnector h' (memoryManager e) = Some (Suc (nextConnector h))"
    and "getOutputConnector h' (memoryManager e) = Some (nextConnector h)"
    and "getProducerCount h' (nextConnector h) = Suc 0"
    and "getProducerCount h' (Suc (nextConnector h)) = Suc 0"
    and "memoryEdges h' (getMemoryTask e) (memoryEdgeName e) =
           Some \<lparr>ae_getMemoryConnector = nextConnector h,
                 ae_releaseMemoryConnector = Suc (nextConnector h),
                 ae_type = getType h (memoryManager e)\<rparr>"
    and "nextConnector h' = Suc (Suc (nextConnector h))"
  using assms
  by (auto simp: MemoryEdge_applyEdge_def heap_ops Let_def
           split: prod.splits option.splits if_splits)


text \<open>
  C5.  If the task getting memory already has a memory edge of the edge's name,
  \<open>applyEdge\<close> throws the runtime error whose message names the task and the edge; if
  it has none of that name, \<open>applyEdge\<close> does not end with that error.
\<close>

theorem MemoryEdge_applyEdge_duplicate_name:
  "(hasMemoryEdge h (getMemoryTask e) (memoryEdgeName e) \<longrightarrow>
      MemoryEdge_applyEdge e h =
        Inl (RuntimeError (''Error getMemoryTask: '' @ getName h (getMemoryTask e)
                             @ '' already has the memory edge: '' @ memoryEdgeName e)))
   \<and> (\<not> hasMemoryEdge h (getMemoryTask e) (memoryEdgeName e) \<longrightarrow>
      MemoryEdge_applyEdge e h \<noteq>
        Inl (RuntimeError (''Error getMemoryTask: '' @ getName h (getMemoryTask e)
                             @ '' already has the memory edge: '' @ memoryEdgeName e)))"
  by (auto simp: MemoryEdge_applyEdge_def heap_ops edge_msgs Let_def
           split: prod.splits option.splits)

theorem MemoryEdge_applyEdge_duplicate_name_witness:
  "hasMemoryEdge
      \<lparr>connectors = (\<lambda>c. \<lparr>producerCount = 1\<rparr>), nextConnector = 2,
       taskManagers = [1 \<mapsto> \<lparr>inputConnector = None, outputConnector = None\<rparr>],
       taskName = (\<lambda>t. ''T''),
       memoryEdges = (\<lambda>t. [''m'' \<mapsto> \<lparr>ae_getMemoryConnector = 0, ae_releaseMemoryConnector = 1,
                                        ae_type = Static\<rparr>]),
       ruleSchedulers = (\<lambda>t. []), mmType = (\<lambda>t. Static)\<rparr> 1 ''m''
   \<and> MemoryEdge_applyEdge \<lparr>memoryEdgeName = ''m'', getMemoryTask = 1, memoryManager = 2\<rparr>
      \<lparr>connectors = (\<lambda>c. \<lparr>producerCount = 1\<rparr>), nextConnector = 2,
       taskManagers = [1 \<mapsto> \<lparr>inputConnector = None, outputConnector = None\<rparr>],
       taskName = (\<lambda>t. ''T''),
       memoryEdges = (\<lambda>t. [''m'' \<mapsto> \<lparr>ae_getMemoryConnector = 0, ae_releaseMemoryConnector = 1,
                                        ae_type = Static\<rparr>]),
       ruleSchedulers = (\<lambda>t. []), mmType = (\<lambda>t. Static)\<rparr>
     = Inl (RuntimeError ''Error getMemoryTask: T already has the memory edge: m'')"
  using MemoryEdge_applyEdge_duplicate_name [of
      "\<lparr>connectors = (\<lambda>c. \<lparr>producerCount = 1\<rparr>), nextConnector = 2,
       taskManagers = [1 \<mapsto> \<lparr>inputConnector = None, outputConnector = None\<rparr>],
       taskName = (\<lambda>t. ''T''),
       memoryEdges = (\<lambda>t. [''m'' \<mapsto> \<lparr>ae_getMemoryConnector = 0, ae_releaseMemoryConnector = 1,
                                        ae_type = Static\<rparr>]),
       ruleSchedulers = (\<lambda>t. []), mmType = (\<lambda>t. Static)\<rparr>"
      "\<lparr>memoryEdgeName = ''m'', getMemoryTask = 1, memoryManager = 2\<rparr>"]
  by (simp add: hasMemoryEdge_def getName_def)




text \<open>
  C7.  When \<open>applyEdge\<close> returns, with \<open>g\<close> the get-memory connector (the first one
  created, at the next free address) and \<open>r\<close> the release connector (the second): the
  memory manager's task manager has \<open>r\<close> as input and \<open>g\<close> as output connector, both
  have producer count one (created with none, incremented once), and the task getting
  memory has under the edge's name the edge made of \<open>g\<close>, \<open>r\<close> and the manager's type.
\<close>

theorem MemoryEdge_applyEdge_connects:
  assumes "MemoryEdge_applyEdge e h = Inr h'"
  shows "getInputConnector h' (memoryManager e) = Some (Suc (nextConnector h))
       \<and> getOutputConnector h' (memoryManager e) = Some (nextConnector h)
       \<and> getProducerCount h' (nextConnector h) = Suc 0
       \<and> getProducerCount h' (Suc (nextConnector h)) = Suc 0
       \<and> memoryEdges h' (getMemoryTask e) (memoryEdgeName e) =
           Some \<lparr>ae_getMemoryConnector = nextConnector h,
                 ae_releaseMemoryConnector = Suc (nextConnector h),
                 ae_type = getType h (memoryManager e)\<rparr>"
  using MemoryEdge_applyEdge_result [OF assms] by simp

theorem MemoryEdge_applyEdge_connects_witness:
  "\<exists>h'. MemoryEdge_applyEdge \<lparr>memoryEdgeName = ''m'', getMemoryTask = 1, memoryManager = 2\<rparr>
      \<lparr>connectors = (\<lambda>c. \<lparr>producerCount = 5\<rparr>), nextConnector = 3,
       taskManagers = [1 \<mapsto> \<lparr>inputConnector = None, outputConnector = None\<rparr>],
       taskName = (\<lambda>t. ''T''), memoryEdges = (\<lambda>t. Map.empty),
       ruleSchedulers = (\<lambda>t. []), mmType = (\<lambda>t. Dynamic)\<rparr> = Inr h'
     \<and> getInputConnector h' 2 = Some 4
     \<and> getOutputConnector h' 2 = Some 3
     \<and> getProducerCount h' 3 = 1
     \<and> getProducerCount h' 4 = 1
     \<and> memoryEdges h' 1 ''m'' =
          Some \<lparr>ae_getMemoryConnector = 3, ae_releaseMemoryConnector = 4, ae_type = Dynamic\<rparr>"
proof -
  let ?e = "\<lparr>memoryEdgeName = ''m'', getMemoryTask = 1, memoryManager = 2\<rparr>"
  let ?h = "\<lparr>connectors = (\<lambda>c. \<lparr>producerCount = 5\<rparr>), nextConnector = 3,
       taskManagers = [1 \<mapsto> \<lparr>inputConnector = None, outputConnector = None\<rparr>],
       taskName = (\<lambda>t. ''T''), memoryEdges = (\<lambda>t. Map.empty),
       ruleSchedulers = (\<lambda>t. []), mmType = (\<lambda>t. Dynamic)\<rparr>"
  have "\<exists>h'. MemoryEdge_applyEdge ?e ?h = Inr h'"
    by (simp add: MemoryEdge_applyEdge_Inr_iff hasMemoryEdge_def hasTask_def
                  getInputConnector_def getOutputConnector_def)
  then obtain h' where ok: "MemoryEdge_applyEdge ?e ?h = Inr h'" ..
  from MemoryEdge_applyEdge_connects [OF ok] ok show ?thesis
    by (simp add: getType_def numeral_eq_Suc)
qed

subsection \<open>copy\<close>

text \<open>
  C8.  \<open>copy\<close> of a memory edge keeps the edge name and replaces both tasks by their
  clones under \<open>getCopy\<close>; \<open>copy\<close> of a rule edge replaces bookkeeper and consumer by
  their clones and keeps the very same rule pointer, so the copies made for two
  pipelines (two clone maps) share one rule instance.
\<close>

theorem EdgeDescriptor_copy_against_clones:
  "copy getCopy (Memory m) =
      Memory \<lparr>memoryEdgeName = memoryEdgeName m,
              getMemoryTask = getCopy (getMemoryTask m),
              memoryManager = getCopy (memoryManager m)\<rparr>
   \<and> copy getCopy (Rule r) =
      Rule \<lparr>bookkeeper = getCopy (bookkeeper r),
            rule = rule r,
            consumer = getCopy (consumer r)\<rparr>
   \<and> rule (RuleEdge_copy getCopy r) = rule (RuleEdge_copy getCopy' r)"
  by (simp add: MemoryEdge_copy_def RuleEdge_copy_def)

subsection \<open>RuleEdge::applyEdge\<close>

text \<open>One edge, when the consumer already has an input connector and when it has none.\<close>

lemma RuleEdge_applyEdge_existing:
  assumes "getInputConnector h (consumer e) = Some c"
  shows "getInputConnector (RuleEdge_applyEdge e h) (consumer e) = Some c"
    and "nextConnector (RuleEdge_applyEdge e h) = nextConnector h"
    and "getProducerCount (RuleEdge_applyEdge e h) c = Suc (getProducerCount h c)"
    and "ruleSchedulers (RuleEdge_applyEdge e h) b =
           ruleSchedulers h b @
             (if b = bookkeeper e then [\<lparr>rs_rule = rule e, rs_outputConnector = Some c\<rparr>] else [])"
  using assms
  by (auto simp: RuleEdge_applyEdge_def heap_ops Let_def
           split: prod.splits option.splits if_splits)

lemma RuleEdge_applyEdge_fresh:
  assumes "getInputConnector h (consumer e) = None"
  shows "getInputConnector (RuleEdge_applyEdge e h) (consumer e) = Some (nextConnector h)"
    and "nextConnector (RuleEdge_applyEdge e h) = Suc (nextConnector h)"
    and "getProducerCount (RuleEdge_applyEdge e h) (nextConnector h) = Suc 0"
    and "ruleSchedulers (RuleEdge_applyEdge e h) b =
           ruleSchedulers h b @
             (if b = bookkeeper e
              then [\<lparr>rs_rule = rule e, rs_outputConnector = Some (nextConnector h)\<rparr>] else [])"
  using assms
  by (auto simp: RuleEdge_applyEdge_def heap_ops Let_def
           split: prod.splits option.splits if_splits)

text \<open>Several edges into one consumer, by induction on the edge list.\<close>

lemma applyRuleEdges_existing:
  "\<forall>e \<in> set es. consumer e = t \<Longrightarrow> getInputConnector h t = Some c \<Longrightarrow>
   getInputConnector (applyRuleEdges es h) t = Some c
   \<and> nextConnector (applyRuleEdges es h) = nextConnector h
   \<and> getProducerCount (applyRuleEdges es h) c = getProducerCount h c + length es
   \<and> (\<forall>b. ruleSchedulers (applyRuleEdges es h) b =
           ruleSchedulers h b @
             map (\<lambda>e. \<lparr>rs_rule = rule e, rs_outputConnector = Some c\<rparr>)
                 (filter (\<lambda>e. bookkeeper e = b) es))"
proof (induction es arbitrary: h)
  case Nil
  then show ?case by simp
next
  case (Cons e es)
  from Cons.prems have ce: "consumer e = t" and rest: "\<forall>e \<in> set es. consumer e = t"
    by simp_all
  from Cons.prems ce have ex: "getInputConnector h (consumer e) = Some c" by simp
  have step: "getInputConnector (RuleEdge_applyEdge e h) t = Some c"
    using RuleEdge_applyEdge_existing(1) [OF ex] ce by simp
  show ?case
    using Cons.IH [OF rest step] RuleEdge_applyEdge_existing(2-4) [OF ex]
    by simp
qed

lemma applyRuleEdges_fresh:
  assumes same: "\<forall>e' \<in> set es. consumer e' = consumer e"
      and none: "getInputConnector h (consumer e) = None"
  shows "getInputConnector (applyRuleEdges (e # es) h) (consumer e) = Some (nextConnector h)
   \<and> nextConnector (applyRuleEdges (e # es) h) = Suc (nextConnector h)
   \<and> getProducerCount (applyRuleEdges (e # es) h) (nextConnector h) = length (e # es)
   \<and> (\<forall>b. ruleSchedulers (applyRuleEdges (e # es) h) b =
           ruleSchedulers h b @
             map (\<lambda>e. \<lparr>rs_rule = rule e, rs_outputConnector = Some (nextConnector h)\<rparr>)
                 (filter (\<lambda>e. bookkeeper e = b) (e # es)))"
  using applyRuleEdges_existing [OF same RuleEdge_applyEdge_fresh(1) [OF none]]
        RuleEdge_applyEdge_fresh(2-4) [OF none]
  by simp

text \<open>
  C10.  If the consumer's task manager has an input connector \<open>c\<close>, \<open>applyEdge\<close> keeps
  it and creates none; if it has none, \<open>applyEdge\<close> creates one (at the next free
  address) and installs it.  Either way that connector's producer count goes up by one
  and the bookkeeper gets one more rule scheduler, holding the edge's rule and that
  connector.  Applying \<open>e\<close> and then any further rule edges \<open>es\<close> into the same consumer
  leaves the consumer with that one connector, creates no other, raises its producer
  count by the number of edges, and gives each bookkeeper one rule scheduler per edge
  of its own, in order.
\<close>

theorem RuleEdge_applyEdge_shares_connector:
  fixes e :: RuleEdge
  shows
  "(\<forall>c. getInputConnector h (consumer e) = Some c \<longrightarrow>
        getInputConnector (RuleEdge_applyEdge e h) (consumer e) = Some c
      \<and> nextConnector (RuleEdge_applyEdge e h) = nextConnector h
      \<and> getProducerCount (RuleEdge_applyEdge e h) c = Suc (getProducerCount h c)
      \<and> ruleSchedulers (RuleEdge_applyEdge e h) (bookkeeper e) =
          ruleSchedulers h (bookkeeper e) @ [\<lparr>rs_rule = rule e, rs_outputConnector = Some c\<rparr>])
   \<and> (getInputConnector h (consumer e) = None \<longrightarrow>
        getInputConnector (RuleEdge_applyEdge e h) (consumer e) = Some (nextConnector h)
      \<and> nextConnector (RuleEdge_applyEdge e h) = Suc (nextConnector h)
      \<and> getProducerCount (RuleEdge_applyEdge e h) (nextConnector h) = Suc 0
      \<and> ruleSchedulers (RuleEdge_applyEdge e h) (bookkeeper e) =
          ruleSchedulers h (bookkeeper e)
            @ [\<lparr>rs_rule = rule e, rs_outputConnector = Some (nextConnector h)\<rparr>])
   \<and> (\<forall>es. (\<forall>e' \<in> set es. consumer e' = consumer e) \<longrightarrow>
        (\<forall>c. getInputConnector h (consumer e) = Some c \<longrightarrow>
            getInputConnector (applyRuleEdges (e # es) h) (consumer e) = Some c
          \<and> nextConnector (applyRuleEdges (e # es) h) = nextConnector h
          \<and> getProducerCount (applyRuleEdges (e # es) h) c
              = getProducerCount h c + length (e # es)
          \<and> (\<forall>b. ruleSchedulers (applyRuleEdges (e # es) h) b =
                 ruleSchedulers h b @
                   map (\<lambda>e'. \<lparr>rs_rule = rule e', rs_outputConnector = Some c\<rparr>)
                       (filter (\<lambda>e'. bookkeeper e' = b) (e # es))))
      \<and> (getInputConnector h (consumer e) = None \<longrightarrow>
            getInputConnector (applyRuleEdges (e # es) h) (consumer e) = Some (nextConnector h)
          \<and> nextConnector (applyRuleEdges (e # es) h) = Suc (nextConnector h)
          \<and> getProducerCount (applyRuleEdges (e # es) h) (nextConnector h) = length (e # es)
          \<and> (\<forall>b. ruleSchedulers (applyRuleEdges (e # es) h) b =
                 ruleSchedulers h b @
                   map (\<lambda>e'. \<lparr>rs_rule = rule e', rs_outputConnector = Some (nextConnector h)\<rparr>)
                       (filter (\<lambda>e'. bookkeeper e' = b) (e # es)))))"
proof (intro conjI allI impI ballI)
  fix c assume ex: "getInputConnector h (consumer e) = Some c"
  show "getInputConnector (RuleEdge_applyEdge e h) (consumer e) = Some c"
    and "nextConnector (RuleEdge_applyEdge e h) = nextConnector h"
    and "getProducerCount (RuleEdge_applyEdge e h) c = Suc (getProducerCount h c)"
    and "ruleSchedulers (RuleEdge_applyEdge e h) (bookkeeper e) =
          ruleSchedulers h (bookkeeper e) @ [\<lparr>rs_rule = rule e, rs_outputConnector = Some c\<rparr>]"
    using RuleEdge_applyEdge_existing [OF ex] by simp_all
next
  assume none: "getInputConnector h (consumer e) = None"
  show "getInputConnector (RuleEdge_applyEdge e h) (consumer e) = Some (nextConnector h)"
    and "nextConnector (RuleEdge_applyEdge e h) = Suc (nextConnector h)"
    and "getProducerCount (RuleEdge_applyEdge e h) (nextConnector h) = Suc 0"
    and "ruleSchedulers (RuleEdge_applyEdge e h) (bookkeeper e) =
          ruleSchedulers h (bookkeeper e)
            @ [\<lparr>rs_rule = rule e, rs_outputConnector = Some (nextConnector h)\<rparr>]"
    using RuleEdge_applyEdge_fresh [OF none] by simp_all
next
  fix es :: "RuleEdge list" and c
  assume same: "\<forall>e' \<in> set es. consumer e' = consumer e"
     and ex: "getInputConnector h (consumer e) = Some c"
  have all: "\<forall>e' \<in> set (e # es). consumer e' = consumer e"
    using same by simp
  note r = applyRuleEdges_existing [OF all ex]
  show "getInputConnector (applyRuleEdges (e # es) h) (consumer e) = Some c"
    and "nextConnector (applyRuleEdges (e # es) h) = nextConnector h"
    and "getProducerCount (applyRuleEdges (e # es) h) c = getProducerCount h c + length (e # es)"
    using r by blast+
  fix b
  show "ruleSchedulers (applyRuleEdges (e # es) h) b =
          ruleSchedulers h b @
            map (\<lambda>e'. \<lparr>rs_rule = rule e', rs_outputConnector = Some c\<rparr>)
                (filter (\<lambda>e'. bookkeeper e' = b) (e # es))"
    using r by blast
next
  fix es :: "RuleEdge list"
  assume same: "\<forall>e' \<in> set es. consumer e' = consumer e"
     and none: "getInputConnector h (consumer e) = None"
  note r = applyRuleEdges_fresh [OF same none]
  show "getInputConnector (applyRuleEdges (e # es) h) (consumer e) = Some (nextConnector h)"
    and "nextConnector (applyRuleEdges (e # es) h) = Suc (nextConnector h)"
    and "getProducerCount (applyRuleEdges (e # es) h) (nextConnector h) = length (e # es)"
    using r by blast+
  fix b
  show "ruleSchedulers (applyRuleEdges (e # es) h) b =
          ruleSchedulers h b @
            map (\<lambda>e'. \<lparr>rs_rule = rule e', rs_outputConnector = Some (nextConnector h)\<rparr>)
                (filter (\<lambda>e'. bookkeeper e' = b) (e # es))"
    using r by blast
qed

theorem RuleEdge_applyEdge_shares_connector_witness:
  "getInputConnector
      \<lparr>connectors = (\<lambda>c. \<lparr>producerCount = 5\<rparr>), nextConnector = 3,
       taskManagers = Map.empty, taskName = (\<lambda>t. ''T''), memoryEdges = (\<lambda>t. Map.empty),
       ruleSchedulers = (\<lambda>t. []), mmType = (\<lambda>t. Static)\<rparr> 9 = None
   \<and> getInputConnector
       (applyRuleEdges [\<lparr>bookkeeper = 1, rule = 10, consumer = 9\<rparr>,
                        \<lparr>bookkeeper = 2, rule = 11, consumer = 9\<rparr>,
                        \<lparr>bookkeeper = 1, rule = 12, consumer = 9\<rparr>]
          \<lparr>connectors = (\<lambda>c. \<lparr>producerCount = 5\<rparr>), nextConnector = 3,
           taskManagers = Map.empty, taskName = (\<lambda>t. ''T''), memoryEdges = (\<lambda>t. Map.empty),
           ruleSchedulers = (\<lambda>t. []), mmType = (\<lambda>t. Static)\<rparr>) 9 = Some 3
   \<and> getProducerCount
       (applyRuleEdges [\<lparr>bookkeeper = 1, rule = 10, consumer = 9\<rparr>,
                        \<lparr>bookkeeper = 2, rule = 11, consumer = 9\<rparr>,
                        \<lparr>bookkeeper = 1, rule = 12, consumer = 9\<rparr>]
          \<lparr>connectors = (\<lambda>c. \<lparr>producerCount = 5\<rparr>), nextConnector = 3,
           taskManagers = Map.empty, taskName = (\<lambda>t. ''T''), memoryEdges = (\<lambda>t. Map.empty),
           ruleSchedulers = (\<lambda>t. []), mmType = (\<lambda>t. Static)\<rparr>) 3 = 3
   \<and> ruleSchedulers
       (applyRuleEdges [\<lparr>bookkeeper = 1, rule = 10, consumer = 9\<rparr>,
                        \<lparr>bookkeeper = 2, rule = 11, consumer = 9\<rparr>,
                        \<lparr>bookkeeper = 1, rule = 12, consumer = 9\<rparr>]
          \<lparr>connectors = (\<lambda>c. \<lparr>producerCount = 5\<rparr>), nextConnector = 3,
           taskManagers = Map.empty, taskName = (\<lambda>t. ''T''), memoryEdges = (\<lambda>t. Map.empty),
           ruleSchedulers = (\<lambda>t. []), mmType = (\<lambda>t. Static)\<rparr>) 1
       = [\<lparr>rs_rule = 10, rs_outputConnector = Some 3\<rparr>,
          \<lparr>rs_rule = 12, rs_outputConnector = Some 3\<rparr>]"
proof -
  let ?h = "\<lparr>connectors = (\<lambda>c. \<lparr>producerCount = 5\<rparr>), nextConnector = 3,
       taskManagers = Map.empty, taskName = (\<lambda>t. ''T''), memoryEdges = (\<lambda>t. Map.empty),
       ruleSchedulers = (\<lambda>t. []), mmType = (\<lambda>t. Static)\<rparr>"
  let ?e1 = "\<lparr>bookkeeper = 1, rule = 10, consumer = 9\<rparr>"
  let ?e2 = "\<lparr>bookkeeper = 2, rule = 11, consumer = 9\<rparr>"
  let ?e3 = "\<lparr>bookkeeper = 1, rule = 12, consumer = 9\<rparr>"
  have none: "getInputConnector ?h (consumer ?e1) = None"
    by (simp add: getInputConnector_def)
  have same: "\<forall>e' \<in> set [?e2, ?e3]. consumer e' = consumer ?e1"
    by simp
  note all = RuleEdge_applyEdge_shares_connector [of ?h ?e1]
  note many = all [THEN conjunct2, THEN conjunct2, THEN spec, of "[?e2, ?e3]",
                   THEN mp, OF same, THEN conjunct2, THEN mp, OF none]
  from many none show ?thesis
    by simp
qed

end
